theory Spec2Isabelle
  imports Complex_Main "HOL-Library.Word"
begin

section \<open>Errors and numbers\<close>

text \<open>
  The exceptions the sources raise, as values. A function that can raise returns
  \<open>py_error + 'a\<close>, with \<open>Inl\<close> for the exception. Floats are modelled as reals.
\<close>

datatype py_error = AssertionError | IndexError | RuntimeError | TypeError | ZeroDivisionError

text \<open>
  The arguments of the \<open>Vector\<close> constructor are Python numbers; \<open>float(x)\<close> turns an
  \<open>int\<close> into the float of the same value and leaves a float as it is.
\<close>

datatype pynum = PyInt int | PyFloat real

fun py_float :: "pynum \<Rightarrow> real" where
  "py_float (PyInt i) = of_int i"
| "py_float (PyFloat r) = r"

section \<open>geometry/vector.py\<close>

text \<open>
  \<open>class Vector\<close> has the three float attributes \<open>x\<close>, \<open>y\<close>, \<open>z\<close>; the fields carry
  the prefix \<open>v\<close> here so that \<open>x\<close>, \<open>y\<close> and \<open>z\<close> stay free for variables.
\<close>

record Vector =
  vx :: real
  vy :: real
  vz :: real

text \<open>
  \<^verbatim>\<open>
  def __init__(self, x: float = 0, y: float | None = None, z: float | None = None, /):
      if y is None:
          y = z = x
      assert z is not None, "You should specify either 1 or all 3 vector coordinates"
      self.x = float(x); self.y = float(y); self.z = float(z)
  \<close>
  An argument left out is \<open>None\<close> (and \<open>x\<close> then is \<open>0\<close>, see \<open>Vector_default\<close>). When
  \<open>y\<close> is \<open>None\<close> the assignment \<open>y = z = x\<close> overwrites \<open>z\<close> too, so the assertion
  can only fail when \<open>y\<close> is given and \<open>z\<close> is not.
\<close>

definition Vector_init :: "pynum \<Rightarrow> pynum option \<Rightarrow> pynum option \<Rightarrow> py_error + Vector" where
  "Vector_init x y z =
     (case y of
        None \<Rightarrow> Inr \<lparr>vx = py_float x, vy = py_float x, vz = py_float x\<rparr>
      | Some y' \<Rightarrow>
          (case z of
             None \<Rightarrow> Inl AssertionError
           | Some z' \<Rightarrow> Inr \<lparr>vx = py_float x, vy = py_float y', vz = py_float z'\<rparr>))"

text \<open>\<open>Vector()\<close>: every parameter takes its default, \<open>x = 0\<close> and \<open>y = z = None\<close>.\<close>

definition Vector_default :: "py_error + Vector" where
  "Vector_default = Vector_init (PyInt 0) None None"

text \<open>
  \<open>from_array(arr)\<close> is \<open>cls(*arr)\<close>: the elements of the array become the positional
  arguments, and the constructor takes at most three of them.
\<close>

fun from_array :: "real list \<Rightarrow> py_error + Vector" where
  "from_array [] = Vector_default"
| "from_array [a] = Vector_init (PyFloat a) None None"
| "from_array [a, b] = Vector_init (PyFloat a) (Some (PyFloat b)) None"
| "from_array [a, b, c] = Vector_init (PyFloat a) (Some (PyFloat b)) (Some (PyFloat c))"
| "from_array (a # b # c # d # ds) = Inl TypeError"

definition to_tuple :: "Vector \<Rightarrow> real \<times> real \<times> real" where
  "to_tuple v = (vx v, vy v, vz v)"

definition to_array :: "Vector \<Rightarrow> real list" where
  "to_array v = [vx v, vy v, vz v]"

text \<open>
  \<^verbatim>\<open>
  def __getitem__(self, idx: int) -> float:
      if idx == 0: return self.x
      elif idx == 1: return self.y
      elif idx == 2: return self.z
      raise IndexError(f"index {idx} not found")
  \<close>
\<close>

definition getitem :: "Vector \<Rightarrow> int \<Rightarrow> py_error + real" where
  "getitem v idx =
     (if idx = 0 then Inr (vx v)
      else if idx = 1 then Inr (vy v)
      else if idx = 2 then Inr (vz v)
      else Inl IndexError)"

subsection \<open>The vector algebra\<close>

text \<open>
  The sources declare \<open>length\<close>, \<open>normalize\<close>, \<open>dot\<close>, the arithmetic operators and
  their in-place variants with a signature and a docstring only; the bodies are left to
  the implementer. The definitions of this subsection follow section 4.1 of the
  specification.
\<close>

text \<open>Modelled from the spec: the body of \<open>Vector.dot\<close>,
  \<open>dot(a,b) = ax*bx + ay*by + az*bz\<close>.\<close>

definition dot :: "Vector \<Rightarrow> Vector \<Rightarrow> real" where
  "dot a b = vx a * vx b + vy a * vy b + vz a * vz b"

text \<open>Modelled from the spec: the body of \<open>Vector.length\<close>,
  \<open>length = sqrt(x^2 + y^2 + z^2)\<close>.\<close>

definition length_vec :: "Vector \<Rightarrow> real" where
  "length_vec v = sqrt (vx v * vx v + vy v * vy v + vz v * vz v)"

text \<open>Modelled from the spec: the bodies of \<open>Vector.__add__\<close> and \<open>Vector.__iadd__\<close>
  (component-wise sum of two vectors; the in-place variant stores it in \<open>self\<close>).\<close>

definition add :: "Vector \<Rightarrow> Vector \<Rightarrow> Vector" where
  "add a b = \<lparr>vx = vx a + vx b, vy = vy a + vy b, vz = vz a + vz b\<rparr>"

text \<open>Modelled from the spec: the body of \<open>Vector.__sub__\<close> (component-wise difference).\<close>

definition sub :: "Vector \<Rightarrow> Vector \<Rightarrow> Vector" where
  "sub a b = \<lparr>vx = vx a - vx b, vy = vy a - vy b, vz = vz a - vz b\<rparr>"

text \<open>Modelled from the spec: the body of \<open>Vector.__neg__\<close>.\<close>

definition neg :: "Vector \<Rightarrow> Vector" where
  "neg a = \<lparr>vx = - vx a, vy = - vy a, vz = - vz a\<rparr>"

text \<open>Modelled from the spec: the bodies of \<open>Vector.__mul__\<close>, \<open>__rmul__\<close> and
  \<open>__imul__\<close> (the scalar is broadcast across all three components).\<close>

definition mul :: "Vector \<Rightarrow> real \<Rightarrow> Vector" where
  "mul a k = \<lparr>vx = vx a * k, vy = vy a * k, vz = vz a * k\<rparr>"

text \<open>Modelled from the spec: the bodies of \<open>Vector.__truediv__\<close> and
  \<open>__itruediv__\<close> (the scalar divides all three components). Dividing a float by
  zero raises \<open>ZeroDivisionError\<close> in Python; HOL's \<open>x / 0 = 0\<close> is kept out.\<close>

definition truediv :: "Vector \<Rightarrow> real \<Rightarrow> py_error + Vector" where
  "truediv a k =
     (if k = 0 then Inl ZeroDivisionError
      else Inr \<lparr>vx = vx a / k, vy = vy a / k, vz = vz a / k\<rparr>)"

text \<open>Modelled from the spec: the body of \<open>Vector.normalize\<close>: the vector divided by
  its length; it "fails with a degenerate-vector condition only if length is exactly zero
  (division by zero)".\<close>

definition normalize_vec :: "Vector \<Rightarrow> py_error + Vector" where
  "normalize_vec v = truediv v (length_vec v)"

section \<open>render/matrix.py\<close>

text \<open>
  \<open>Matrix\<close> holds a 4x4 numpy array of floats, here the list of its four rows. The
  constructor starts from zeros, writes \<open>right\<close>, \<open>up\<close>, \<open>forward\<close> and \<open>from_\<close> into
  the first three entries of rows 0 to 3, and sets entry \<open>[3, 3]\<close> to 1.
\<close>

type_synonym Matrix = "real list list"

definition Matrix_init :: "Vector \<Rightarrow> Vector \<Rightarrow> Vector \<Rightarrow> Vector \<Rightarrow> Matrix" where
  "Matrix_init right up forward from' =
     [to_array right @ [0], to_array up @ [0], to_array forward @ [0], to_array from' @ [1]]"

text \<open>\<open>matrix[:3, :3].T @ a\<close>: entry \<open>j\<close> of the product is the sum over \<open>i < 3\<close> of
  \<open>matrix[i, j] * a[i]\<close>.\<close>

definition matmul_T3 :: "Matrix \<Rightarrow> real list \<Rightarrow> real list" where
  "matmul_T3 m a = map (\<lambda>j. m ! 0 ! j * a ! 0 + m ! 1 ! j * a ! 1 + m ! 2 ! j * a ! 2) [0, 1, 2]"

text \<open>
  \<^verbatim>\<open>
  def vector_matrix_multiply(matrix, vector):
      return Vector.from_array(matrix[:3, :3].T @ vector.to_array())
  \<close>
\<close>

definition vector_matrix_multiply :: "Matrix \<Rightarrow> Vector \<Rightarrow> py_error + Vector" where
  "vector_matrix_multiply m v = from_array (matmul_T3 m (to_array v))"

text \<open>
  \<^verbatim>\<open>
  def point_matrix_multiply(matrix, point):
      result = vector_matrix_multiply(matrix, point)
      result += Vector.from_array(matrix[3, :3])
      depth = point.to_array() @ matrix[3, :3] + matrix[3, 3]
      return result / depth
  \<close>
  \<open>matrix[3, :3]\<close> is the first three entries of row 3, the row the constructor fills
  with \<open>from_\<close>; the same slice is added as the translation and multiplied with the point
  for \<open>depth\<close>. \<open>+=\<close> and \<open>/\<close> are the operators \<open>add\<close> and \<open>truediv\<close> above.
\<close>

definition point_matrix_multiply :: "Matrix \<Rightarrow> Vector \<Rightarrow> py_error + Vector" where
  "point_matrix_multiply m p =
     (case vector_matrix_multiply m p of
        Inl e \<Rightarrow> Inl e
      | Inr result \<Rightarrow>
          (case from_array (take 3 (m ! 3)) of
             Inl e \<Rightarrow> Inl e
           | Inr tr \<Rightarrow>
               (let result' = add result tr;
                    depth = (to_array p ! 0 * m ! 3 ! 0 + to_array p ! 1 * m ! 3 ! 1
                             + to_array p ! 2 * m ! 3 ! 2) + m ! 3 ! 3
                in truediv result' depth)))"

section \<open>geometry/triangle.py\<close>

text \<open>
  \<^verbatim>\<open>
  def __init__(self, vertices: Sequence[Vector], **kwargs: Any):
      if len(vertices) != 3:
          raise RuntimeError('Triangle has exactly three vertices most of the time.')
      super().__init__(**kwargs)
      self._vertices = tuple(vertices)
  \<close>
  \<open>BaseObject\<close> (geometry/base.py) is not among the sources: what its constructor makes
  of the keyword arguments is the parameter \<open>super_init\<close>, an error or the base part
  of the object.
\<close>

record 'b Triangle =
  base :: 'b
  vertices :: "Vector list"

definition Triangle_init :: "Vector list \<Rightarrow> py_error + 'b \<Rightarrow> py_error + 'b Triangle" where
  "Triangle_init vs super_init =
     (if length vs \<noteq> 3 then Inl RuntimeError
      else (case super_init of
              Inl e \<Rightarrow> Inl e
            | Inr b \<Rightarrow> Inr \<lparr>base = b, vertices = vs\<rparr>))"

section \<open>geometry/ray.py\<close>

text \<open>
  A \<open>Ray\<close> holds references to two \<open>Vector\<close> objects, and \<open>Vector\<close> objects are
  mutable: \<open>normalize\<close> and the operators \<open>+=\<close>, \<open>-=\<close>, \<open>*=\<close>, \<open>/=\<close> change the
  object and return it. The store maps the address of a \<open>Vector\<close> object to its value.
\<close>

type_synonym addr = nat
type_synonym store = "addr \<Rightarrow> Vector"

record Ray =
  origin :: addr
  direction :: addr

text \<open>A store in which every object is the zero vector, to build concrete stores from.\<close>

definition store0 :: store where
  "store0 = (\<lambda>a. \<lparr>vx = 0, vy = 0, vz = 0\<rparr>)"

text \<open>\<open>Vector.normalize\<close> on the object at address \<open>a\<close> ("in place, returns self").\<close>

definition normalize_inplace :: "store \<Rightarrow> addr \<Rightarrow> py_error + store" where
  "normalize_inplace h a =
     (case normalize_vec (h a) of Inl e \<Rightarrow> Inl e | Inr v \<Rightarrow> Inr (h(a := v)))"

text \<open>\<open>Vector.__imul__\<close> on the object at address \<open>a\<close>.\<close>

definition imul_inplace :: "store \<Rightarrow> addr \<Rightarrow> real \<Rightarrow> store" where
  "imul_inplace h a k = h(a := mul (h a) k)"

text \<open>
  \<^verbatim>\<open>
  @attr.s(slots=True, kw_only=True)
  class Ray:
      origin: Vector = attr.ib()
      direction: Vector = attr.ib()
      def __attrs_post_init__(self):
          self.direction.normalize()
  \<close>
  The generated constructor stores the two references and then normalizes the direction
  object itself, the one the caller passed in.
\<close>

definition Ray_init :: "store \<Rightarrow> addr \<Rightarrow> addr \<Rightarrow> py_error + (store \<times> Ray)" where
  "Ray_init h orig dir =
     (case normalize_inplace h dir of
        Inl e \<Rightarrow> Inl e
      | Inr h' \<Rightarrow> Inr (h', \<lparr>origin = orig, direction = dir\<rparr>))"

text \<open>
  \<open>reflect\<close> and \<open>refract\<close> are declared with a docstring only ("don't forget the case
  of total internal reflection!", "eta: ratio of refraction indices of two environments,
  with the initial eta in the numerator", "return: direction of the refracted ray, or
  None").
\<close>

text \<open>Modelled from the spec: the flip at the start of \<open>refract\<close> (section 4.2): "let
  \<open>cosI = -dot(n,d)\<close> (flip \<open>n\<close> if \<open>cosI < 0\<close> and invert \<open>eta\<close> accordingly)". The
  flipped normal is \<open>-n\<close> and the inverted ratio is \<open>1 / eta\<close>, a division that raises
  for \<open>eta = 0\<close>.\<close>

definition refract_flip :: "Vector \<Rightarrow> Vector \<Rightarrow> real \<Rightarrow> py_error + (Vector \<times> real)" where
  "refract_flip d n eta =
     (if - dot n d < 0
      then (if eta = 0 then Inl ZeroDivisionError else Inr (neg n, 1 / eta))
      else Inr (n, eta))"

text \<open>Modelled from the spec: the body of \<open>refract\<close> (section 4.2): with the normal and
  the ratio after the flip and \<open>cosI = -dot(n,d)\<close> for that normal, "compute
  \<open>sin2T = eta^2 * (1 - cosI^2)\<close>; if \<open>sin2T > 1\<close>, total internal reflection occurs:
  return none; otherwise \<open>cosT = sqrt(1 - sin2T)\<close> and result
  \<open>= eta*d + (eta*cosI - cosT)*n\<close>, normalized".\<close>

definition refract :: "Vector \<Rightarrow> Vector \<Rightarrow> real \<Rightarrow> py_error + Vector option" where
  "refract d n eta =
     (case refract_flip d n eta of
        Inl e \<Rightarrow> Inl e
      | Inr (n', eta') \<Rightarrow>
          (let cosI = - dot n' d;
               sin2T = eta' * eta' * (1 - cosI * cosI)
           in if sin2T > 1 then Inr None
              else (let cosT = sqrt (1 - sin2T)
                    in (case normalize_vec (add (mul d eta') (mul n' (eta' * cosI - cosT))) of
                          Inl e \<Rightarrow> Inl e
                        | Inr v \<Rightarrow> Inr (Some v)))))"

section \<open>geometry/sphere.py\<close>

text \<open>
  \<open>solve_quadratic\<close> is declared with its docstring only: "Find all roots of a
  quadratic equation and return the in sorted order. Notes: is it actually quadratic?
  return: tuple of two (probably equal) roots of ax^2 + bx + c = 0 in sorted order, or
  None. raises RuntimeError: infinity solutions".
\<close>

text \<open>Modelled from the spec: the body of \<open>solve_quadratic\<close> (section 4.3). With
  \<open>a = 0\<close> it "degenerates to the linear case": the root \<open>-c/b\<close> twice when
  \<open>b \<noteq> 0\<close>; it "fails with a reportable error only for \<open>a = b = c = 0\<close>; all other cases
  return either a root pair or none", so \<open>a = b = 0\<close> with \<open>c \<noteq> 0\<close>, where no root
  exists, is none. Otherwise, with the discriminant \<open>b^2 - 4ac\<close>: none when it is
  negative, and "two roots \<open>(-b +- sqrt D)/(2a)\<close>, returned sorted ascending" when not.\<close>

definition solve_quadratic :: "real \<Rightarrow> real \<Rightarrow> real \<Rightarrow> py_error + (real \<times> real) option" where
  "solve_quadratic a b c =
     (if a = 0 then
        (if b = 0 then (if c = 0 then Inl RuntimeError else Inr None)
         else Inr (Some (- c / b, - c / b)))
      else
        (let disc = b * b - 4 * a * c
         in if disc < 0 then Inr None
            else (let r1 = (- b - sqrt disc) / (2 * a);
                      r2 = (- b + sqrt disc) / (2 * a)
                  in Inr (Some (min r1 r2, max r1 r2)))))"

text \<open>
  \<open>Sphere\<close> has the attributes \<open>center\<close> and \<open>radius\<close> (and what it inherits from
  \<open>BaseObject\<close>, which \<open>intersect\<close> and \<open>get_normal\<close> do not read).
\<close>

record Sphere =
  center :: Vector
  radius :: real

text \<open>Modelled from the spec: \<open>Intersection\<close> (geometry/base.py is not among the sources)
  "carries at least the hit distance \<open>t\<close>, the hit point, and the local surface normal".\<close>

record Intersection =
  distance :: real
  point :: Vector
  normal :: Vector

text \<open>Modelled from the spec: the body of \<open>Sphere.get_normal\<close> (section 4.4):
  \<open>get_normal(point) = (point - center) / radius\<close>.\<close>

definition get_normal :: "Sphere \<Rightarrow> Vector \<Rightarrow> py_error + Vector" where
  "get_normal s p = truediv (sub p (center s)) (radius s)"

text \<open>The intersection reported at the ray parameter \<open>t\<close>: the point \<open>O + t*D\<close> and the
  normal there, from \<open>get_normal\<close> ("use get_normal() helper below").\<close>

definition intersection_at :: "Sphere \<Rightarrow> Vector \<Rightarrow> Vector \<Rightarrow> real \<Rightarrow> py_error + Intersection option" where
  "intersection_at s orig dir t =
     (let p = add orig (mul dir t)
      in (case get_normal s p of
            Inl e \<Rightarrow> Inl e
          | Inr n \<Rightarrow> Inr (Some \<lparr>distance = t, point = p, normal = n\<rparr>)))"

text \<open>Modelled from the spec: the body of \<open>Sphere.intersect\<close> (section 4.4): the quadratic
  in \<open>t\<close> "with \<open>a = 1\<close> (D is unit), \<open>b = 2*dot(D, O-C)\<close>, \<open>c = |O-C|^2 - r^2\<close>", solved
  by \<open>solve_quadratic\<close>; given the roots \<open>t0 \<le> t1\<close>: "if both negative: none; if \<open>t0\<close>
  negative but \<open>t1\<close> positive: report the intersection at \<open>t1\<close>; otherwise report
  \<open>t0\<close>". The ray's two vectors are read from the store.\<close>

definition intersect :: "store \<Rightarrow> Sphere \<Rightarrow> Ray \<Rightarrow> py_error + Intersection option" where
  "intersect h s ray =
     (let orig = h (origin ray);
          dir = h (direction ray);
          oc = sub orig (center s);
          b = 2 * dot dir oc;
          c = dot oc oc - radius s * radius s
      in (case solve_quadratic 1 b c of
            Inl e \<Rightarrow> Inl e
          | Inr None \<Rightarrow> Inr None
          | Inr (Some (t0, t1)) \<Rightarrow>
              (if t0 < 0 \<and> t1 < 0 then Inr None
               else if t0 < 0 \<and> 0 < t1 then intersection_at s orig dir t1
               else intersection_at s orig dir t0)))"

section \<open>render/scene.py\<close>

text \<open>\<open>NONE_VECTOR = Vector(-3.14)\<close>, the marker of a pixel whose ray hit nothing.\<close>

definition NONE_VECTOR :: Vector where
  "NONE_VECTOR = \<lparr>vx = - (314 / 100), vy = - (314 / 100), vz = - (314 / 100)\<rparr>"

text \<open>
  The pixel buffer is a numpy array of shape (height, width, 3): a list of rows, each a
  list of pixels with three channels. \<open>tone_mapping\<close> and \<open>gamma_correction\<close> change
  it in place and are declared with a docstring only ("don't forget to replace None
  values (NONE_ARRAY) with background_color vector!", "ignore a whole black square (when
  max is < EPS)"); here they return the new buffer.
\<close>

type_synonym pixels = "Vector list list"

definition max_channel :: "Vector \<Rightarrow> real" where
  "max_channel p = max (vx p) (max (vy p) (vz p))"

text \<open>Modelled from the spec: "equal (within \<open>eps\<close>) to the sentinel miss marker"
  (section 4.8), channel by channel.\<close>

definition is_miss :: "real \<Rightarrow> Vector \<Rightarrow> bool" where
  "is_miss eps p \<longleftrightarrow>
     \<bar>vx p - vx NONE_VECTOR\<bar> \<le> eps \<and> \<bar>vy p - vy NONE_VECTOR\<bar> \<le> eps \<and> \<bar>vz p - vz NONE_VECTOR\<bar> \<le> eps"

text \<open>Modelled from the spec: the body of \<open>tone_mapping\<close> (section 4.8): "for every pixel
  equal (within \<open>eps\<close>) to the sentinel miss marker, replace it with \<open>background_color\<close>;
  additionally rescale any pixel whose maximum channel exceeds 1 by dividing by that
  maximum".\<close>

definition tone_map_pixel :: "Vector \<Rightarrow> real \<Rightarrow> Vector \<Rightarrow> Vector" where
  "tone_map_pixel background_color eps p =
     (let q = (if is_miss eps p then background_color else p);
          m = max_channel q
      in if m > 1 then \<lparr>vx = vx q / m, vy = vy q / m, vz = vz q / m\<rparr> else q)"

definition tone_mapping :: "pixels \<Rightarrow> Vector \<Rightarrow> real \<Rightarrow> pixels" where
  "tone_mapping px background_color eps = map (map (tone_map_pixel background_color eps)) px"

text \<open>Modelled from the spec: the body of \<open>gamma_correction\<close> (section 4.8): "for every
  pixel whose maximum channel exceeds \<open>eps\<close>, replace each channel \<open>c\<close> with
  \<open>c^(1/gamma)\<close>". The exponent \<open>1 / gamma\<close> is a division that raises for
  \<open>gamma = 0\<close>. The power of a negative channel (not a number, for numpy) is outside the
  model: \<open>powr\<close> is used at channels that are not negative only.\<close>

definition gamma_pixel :: "real \<Rightarrow> real \<Rightarrow> Vector \<Rightarrow> Vector" where
  "gamma_pixel e eps p =
     (if max_channel p > eps then \<lparr>vx = vx p powr e, vy = vy p powr e, vz = vz p powr e\<rparr>
      else p)"

definition gamma_correction :: "pixels \<Rightarrow> real \<Rightarrow> real \<Rightarrow> py_error + pixels" where
  "gamma_correction px gamma eps =
     (if gamma = 0 then Inl ZeroDivisionError
      else Inr (map (map (gamma_pixel (1 / gamma) eps)) px))"

text \<open>
  \<^verbatim>\<open>
  def postprocess(self, pixels, background_color, *, gamma=2.2, eps=EPS):
      self.tone_mapping(pixels, background_color, eps=eps)
      self.gamma_correction(pixels, gamma=gamma, eps=eps)
  \<close>
\<close>

definition postprocess :: "pixels \<Rightarrow> Vector \<Rightarrow> real \<Rightarrow> real \<Rightarrow> py_error + pixels" where
  "postprocess px background_color gamma eps =
     gamma_correction (tone_mapping px background_color eps) gamma eps"

text \<open>
  The end of \<open>render\<close>:
  \<^verbatim>\<open>
      self.postprocess(pixels, background_color, eps=eps)
      img = Image.fromarray(np.uint8(np.clip(0, 255, 256 * pixels)))
  \<close>
  \<open>np.clip(a, a_min, a_max)\<close> is \<open>minimum(a_max, maximum(a, a_min))\<close>, with broadcasting
  and with no check that \<open>a_min \<le> a_max\<close>; the call passes \<open>0\<close> as \<open>a\<close>, \<open>255\<close> as
  \<open>a_min\<close> and the scaled buffer as \<open>a_max\<close>. \<open>np.uint8\<close> of a float drops the
  fraction (it rounds towards zero) and keeps the low eight bits.
\<close>

definition np_clip :: "real \<Rightarrow> real \<Rightarrow> real \<Rightarrow> real" where
  "np_clip a a_min a_max = min a_max (max a a_min)"

definition np_uint8 :: "real \<Rightarrow> 8 word" where
  "np_uint8 r = word_of_int (if 0 \<le> r then \<lfloor>r\<rfloor> else \<lceil>r\<rceil>)"

definition channel_byte :: "real \<Rightarrow> 8 word" where
  "channel_byte c = np_uint8 (np_clip 0 255 (256 * c))"

definition pixel_bytes :: "Vector \<Rightarrow> 8 word list" where
  "pixel_bytes p = map channel_byte (to_array p)"

text \<open>
  \<open>render\<close> from the traced buffer on: \<open>traced\<close> is the buffer the lines of
  \<open>_process_line\<close> fill (a traced colour, or \<open>NONE_VECTOR\<close> for a miss), the background
  defaults to \<open>Vector(0, 0, 0)\<close>, and \<open>postprocess\<close> runs with its default
  \<open>gamma = 2.2\<close>.
\<close>

definition render_image :: "pixels \<Rightarrow> Vector option \<Rightarrow> real \<Rightarrow> py_error + 8 word list list list" where
  "render_image traced background_color eps =
     (let bg = (case background_color of None \<Rightarrow> \<lparr>vx = 0, vy = 0, vz = 0\<rparr> | Some c \<Rightarrow> c)
      in (case postprocess traced bg (22 / 10) eps of
            Inl e \<Rightarrow> Inl e
          | Inr px \<Rightarrow> Inr (map (map pixel_bytes) px)))"

text \<open>
  Three conditions on a colour, for the statements about \<open>postprocess\<close>: no channel is
  negative; every channel lies in \<open>[0, 1]\<close>; every channel is 0 or 1.
\<close>

definition nonneg_channels :: "Vector \<Rightarrow> bool" where
  "nonneg_channels p \<longleftrightarrow> 0 \<le> vx p \<and> 0 \<le> vy p \<and> 0 \<le> vz p"

definition unit_channels :: "Vector \<Rightarrow> bool" where
  "unit_channels p \<longleftrightarrow> 0 \<le> vx p \<and> vx p \<le> 1 \<and> 0 \<le> vy p \<and> vy p \<le> 1 \<and> 0 \<le> vz p \<and> vz p \<le> 1"

definition binary_channels :: "Vector \<Rightarrow> bool" where
  "binary_channels p \<longleftrightarrow> (vx p = 0 \<or> vx p = 1) \<and> (vy p = 0 \<or> vy p = 1) \<and> (vz p = 0 \<or> vz p = 1)"

section \<open>Facts about the vector algebra\<close>

lemma length_vec_nonneg: "0 \<le> length_vec v"
  by (simp add: length_vec_def)

lemma length_vec_zero_iff: "length_vec v = 0 \<longleftrightarrow> v = \<lparr>vx = 0, vy = 0, vz = 0\<rparr>"
proof
  assume "length_vec v = 0"
  then have s: "vx v * vx v + vy v * vy v + vz v * vz v = 0"
    by (simp add: length_vec_def)
  have "0 \<le> vx v * vx v" "0 \<le> vy v * vy v" "0 \<le> vz v * vz v" by simp_all
  with s have "vx v * vx v = 0" "vy v * vy v = 0" "vz v * vz v = 0" by linarith+
  then show "v = \<lparr>vx = 0, vy = 0, vz = 0\<rparr>" by (cases v) simp
next
  assume "v = \<lparr>vx = 0, vy = 0, vz = 0\<rparr>"
  then show "length_vec v = 0" by (simp add: length_vec_def)
qed

lemma length_vec_sq: "length_vec v * length_vec v = dot v v"
  by (simp add: length_vec_def dot_def)

lemma length_vec_scaled:
  assumes "k \<noteq> 0"
  shows "length_vec \<lparr>vx = vx v / k, vy = vy v / k, vz = vz v / k\<rparr> = length_vec v / \<bar>k\<bar>"
proof -
  have "(vx v / k) * (vx v / k) + (vy v / k) * (vy v / k) + (vz v / k) * (vz v / k)
        = (vx v * vx v + vy v * vy v + vz v * vz v) / (k * k)"
    by (simp add: add_divide_distrib)
  then show ?thesis
    by (simp add: length_vec_def real_sqrt_divide)
qed

lemma normalize_vec_unit:
  assumes "length_vec v \<noteq> 0"
  shows "\<exists>u. normalize_vec v = Inr u \<and> length_vec u = 1"
proof -
  have pos: "0 < length_vec v" using assms length_vec_nonneg [of v] by linarith
  have "length_vec \<lparr>vx = vx v / length_vec v, vy = vy v / length_vec v, vz = vz v / length_vec v\<rparr>
        = length_vec v / \<bar>length_vec v\<bar>"
    using assms by (rule length_vec_scaled)
  also have "\<dots> = 1" using pos by simp
  finally show ?thesis using assms by (simp add: normalize_vec_def truediv_def)
qed

lemma normalize_vec_zero: "normalize_vec \<lparr>vx = 0, vy = 0, vz = 0\<rparr> = Inl ZeroDivisionError"
  by (simp add: normalize_vec_def truediv_def length_vec_def)

section \<open>Properties of the Vector constructor and of indexing\<close>

text \<open>
  C9. With one argument \<open>x\<close> the constructor builds \<open>(float(x), float(x), float(x))\<close>,
  and \<open>Vector()\<close> is the zero vector; with three arguments it builds
  \<open>(float(x), float(y), float(z))\<close>; with exactly two arguments the assertion fails.
\<close>

theorem Vector_init_arities:
  "Vector_init x None None = Inr \<lparr>vx = py_float x, vy = py_float x, vz = py_float x\<rparr>
   \<and> Vector_default = Inr \<lparr>vx = 0, vy = 0, vz = 0\<rparr>
   \<and> Vector_init x (Some y) (Some z) = Inr \<lparr>vx = py_float x, vy = py_float y, vz = py_float z\<rparr>
   \<and> Vector_init x (Some y) None = Inl AssertionError"
  by (simp add: Vector_init_def Vector_default_def)

text \<open>
  C10. \<open>v[0]\<close>, \<open>v[1]\<close>, \<open>v[2]\<close> are \<open>v.x\<close>, \<open>v.y\<close>, \<open>v.z\<close>, and every other integer
  index raises \<open>IndexError\<close>; a negative index does not wrap around.
\<close>

theorem getitem_cases:
  "getitem v 0 = Inr (vx v) \<and> getitem v 1 = Inr (vy v) \<and> getitem v 2 = Inr (vz v)
   \<and> (\<forall>i. i \<noteq> 0 \<and> i \<noteq> 1 \<and> i \<noteq> 2 \<longrightarrow> getitem v i = Inl IndexError)
   \<and> (\<forall>i. i < 0 \<longrightarrow> getitem v i = Inl IndexError)"
  by (simp add: getitem_def)

theorem getitem_cases_witness:
  "getitem \<lparr>vx = 1, vy = 2, vz = 3\<rparr> 0 = Inr 1
   \<and> getitem \<lparr>vx = 1, vy = 2, vz = 3\<rparr> 2 = Inr 3
   \<and> (3::int) \<noteq> 0 \<and> (3::int) \<noteq> 1 \<and> (3::int) \<noteq> 2
   \<and> getitem \<lparr>vx = 1, vy = 2, vz = 3\<rparr> 3 = Inl IndexError
   \<and> (-1::int) < 0
   \<and> getitem \<lparr>vx = 1, vy = 2, vz = 3\<rparr> (-1) = Inl IndexError"
  using getitem_cases [of "\<lparr>vx = 1, vy = 2, vz = 3\<rparr>"] by simp

section \<open>Triangle construction\<close>

text \<open>
  C7. Constructing a \<open>Triangle\<close> from exactly three vertices succeeds (the base
  constructor having accepted the keyword arguments), and a sequence of any other length
  is rejected with \<open>RuntimeError\<close> before the base constructor runs and before any
  attribute is set: no \<open>Triangle\<close> value comes out, whatever the keyword arguments.
\<close>

theorem Triangle_init_three:
  "(length vs = 3 \<longrightarrow> Triangle_init vs (Inr b) = Inr \<lparr>base = b, vertices = vs\<rparr>)
   \<and> (length vs \<noteq> 3 \<longrightarrow> Triangle_init vs super_init = Inl RuntimeError)"
  by (simp add: Triangle_init_def)

theorem Triangle_init_three_witness:
  "length [\<lparr>vx = 0, vy = 0, vz = 0\<rparr>, \<lparr>vx = 1, vy = 0, vz = 0\<rparr>, \<lparr>vx = 0, vy = 1, vz = 0\<rparr>] = 3
   \<and> Triangle_init [\<lparr>vx = 0, vy = 0, vz = 0\<rparr>, \<lparr>vx = 1, vy = 0, vz = 0\<rparr>, \<lparr>vx = 0, vy = 1, vz = 0\<rparr>]
        (Inr ()) =
      Inr \<lparr>base = (), vertices = [\<lparr>vx = 0, vy = 0, vz = 0\<rparr>, \<lparr>vx = 1, vy = 0, vz = 0\<rparr>,
                                   \<lparr>vx = 0, vy = 1, vz = 0\<rparr>]\<rparr>
   \<and> length [\<lparr>vx = 0, vy = 0, vz = 0\<rparr>, \<lparr>vx = 1, vy = 0, vz = 0\<rparr>] \<noteq> 3
   \<and> Triangle_init [\<lparr>vx = 0, vy = 0, vz = 0\<rparr>, \<lparr>vx = 1, vy = 0, vz = 0\<rparr>] (Inr ())
      = Inl RuntimeError"
  using Triangle_init_three
          [of "[\<lparr>vx = 0, vy = 0, vz = 0\<rparr>, \<lparr>vx = 1, vy = 0, vz = 0\<rparr>, \<lparr>vx = 0, vy = 1, vz = 0\<rparr>]"
              "()" "Inr ()"]
        Triangle_init_three
          [of "[\<lparr>vx = 0, vy = 0, vz = 0\<rparr>, \<lparr>vx = 1, vy = 0, vz = 0\<rparr>]" "()" "Inr ()"]
  by simp

section \<open>The camera transform of a point\<close>

text \<open>
  What \<open>point_matrix_multiply\<close> computes on a matrix of the constructor: the rotated
  point plus the translation row, divided by \<open>dot(point, from_) + 1\<close>. The divisor is built
  from row 3 of the matrix, the translation, not from its column 3, which is
  \<open>(0, 0, 0, 1)\<close>.
\<close>

lemma point_matrix_multiply_Matrix_init:
  "point_matrix_multiply (Matrix_init r u f t) p =
     truediv (add \<lparr>vx = vx r * vx p + vx u * vy p + vx f * vz p,
                    vy = vy r * vx p + vy u * vy p + vy f * vz p,
                    vz = vz r * vx p + vz u * vy p + vz f * vz p\<rparr> t)
             (dot p t + 1)"
  by (simp add: point_matrix_multiply_def vector_matrix_multiply_def matmul_T3_def
      Matrix_init_def to_array_def Vector_init_def dot_def add_def Let_def)

text \<open>
  C5 says that the divisor \<open>w\<close> is 1 for every point, so that the result is the rotated
  point plus the translation. With the identity rotation and the translation
  \<open>from_ = (1, 0, 0)\<close>, the point \<open>(1, 0, 0)\<close> should go to \<open>(2, 0, 0)\<close>; the divisor is
  \<open>1 * 1 + 1 = 2\<close> and the result is \<open>(1, 0, 0)\<close>.
\<close>

theorem point_matrix_multiply_divisor_not_one:
  "point_matrix_multiply
     (Matrix_init \<lparr>vx = 1, vy = 0, vz = 0\<rparr> \<lparr>vx = 0, vy = 1, vz = 0\<rparr>
        \<lparr>vx = 0, vy = 0, vz = 1\<rparr> \<lparr>vx = 1, vy = 0, vz = 0\<rparr>)
     \<lparr>vx = 1, vy = 0, vz = 0\<rparr> = Inr \<lparr>vx = 1, vy = 0, vz = 0\<rparr>
   \<and> vector_matrix_multiply
     (Matrix_init \<lparr>vx = 1, vy = 0, vz = 0\<rparr> \<lparr>vx = 0, vy = 1, vz = 0\<rparr>
        \<lparr>vx = 0, vy = 0, vz = 1\<rparr> \<lparr>vx = 1, vy = 0, vz = 0\<rparr>)
     \<lparr>vx = 1, vy = 0, vz = 0\<rparr> = Inr \<lparr>vx = 1, vy = 0, vz = 0\<rparr>
   \<and> add \<lparr>vx = 1, vy = 0, vz = 0\<rparr> \<lparr>vx = 1, vy = 0, vz = 0\<rparr> = \<lparr>vx = 2, vy = 0, vz = 0\<rparr>"
  by (simp add: point_matrix_multiply_def vector_matrix_multiply_def matmul_T3_def
      Matrix_init_def to_array_def Vector_init_def add_def truediv_def Let_def)

section \<open>The direction of a ray\<close>

text \<open>
  C4, as the sources have it. For every \<open>Ray\<close> constructed from any origin and any
  non-zero direction vector, construction succeeds and the direction has unit length
  immediately afterwards: the vector object the caller passed is normalized in place and
  the ray keeps a reference to it; no other object changes. Nothing keeps the invariant
  later: it lasts as long as that vector object is left alone.
\<close>

theorem Ray_init_unit_direction:
  assumes "h dir \<noteq> \<lparr>vx = 0, vy = 0, vz = 0\<rparr>"
  shows "\<exists>h'. Ray_init h orig dir = Inr (h', \<lparr>origin = orig, direction = dir\<rparr>)
          \<and> length_vec (h' dir) = 1
          \<and> normalize_vec (h dir) = Inr (h' dir)
          \<and> (\<forall>a. a \<noteq> dir \<longrightarrow> h' a = h a)
          \<and> (\<forall>h''. h'' dir = h' dir \<longrightarrow> length_vec (h'' dir) = 1)"
proof -
  from assms have "length_vec (h dir) \<noteq> 0" by (simp add: length_vec_zero_iff)
  then obtain u where u: "normalize_vec (h dir) = Inr u" "length_vec u = 1"
    using normalize_vec_unit by blast
  then show ?thesis
    by (simp add: Ray_init_def normalize_inplace_def)
qed

theorem Ray_init_unit_direction_witness:
  "(store0(1 := \<lparr>vx = 2, vy = 0, vz = 0\<rparr>)) 1 \<noteq> \<lparr>vx = 0, vy = 0, vz = 0\<rparr>
   \<and> (\<exists>h'. Ray_init (store0(1 := \<lparr>vx = 2, vy = 0, vz = 0\<rparr>)) 0 1
             = Inr (h', \<lparr>origin = 0, direction = 1\<rparr>)
           \<and> length_vec (h' 1) = 1)"
  using Ray_init_unit_direction [of "store0(1 := \<lparr>vx = 2, vy = 0, vz = 0\<rparr>)" 1 0]
  by auto

text \<open>
  The claim as stated, with "this invariant holds for every Ray ever observed by any
  operation", fails: after \<open>v = Vector(2, 0, 0)\<close>, \<open>r = Ray(origin=o, direction=v)\<close>
  and \<open>v *= 2\<close>, the direction of \<open>r\<close> is \<open>(2, 0, 0)\<close>, of length 2. Address 0 holds
  \<open>o\<close> and address 1 holds \<open>v\<close>.
\<close>

theorem Ray_direction_not_invariant:
  "Ray_init (store0(1 := \<lparr>vx = 2, vy = 0, vz = 0\<rparr>)) 0 1
     = Inr (store0(1 := \<lparr>vx = 1, vy = 0, vz = 0\<rparr>), \<lparr>origin = 0, direction = 1\<rparr>)
   \<and> length_vec (imul_inplace (store0(1 := \<lparr>vx = 1, vy = 0, vz = 0\<rparr>)) 1 2
                   (direction \<lparr>origin = 0, direction = 1\<rparr>)) = 2"
  by (simp add: Ray_init_def normalize_inplace_def normalize_vec_def truediv_def length_vec_def
      imul_inplace_def mul_def)

section \<open>The quadratic solver\<close>

lemma quadratic_formula_roots:
  fixes a b c :: real
  assumes "a \<noteq> 0" "0 \<le> b * b - 4 * a * c"
  shows "a * ((- b - sqrt (b * b - 4 * a * c)) / (2 * a)) * ((- b - sqrt (b * b - 4 * a * c)) / (2 * a))
         + b * ((- b - sqrt (b * b - 4 * a * c)) / (2 * a)) + c = 0"
    and "a * ((- b + sqrt (b * b - 4 * a * c)) / (2 * a)) * ((- b + sqrt (b * b - 4 * a * c)) / (2 * a))
         + b * ((- b + sqrt (b * b - 4 * a * c)) / (2 * a)) + c = 0"
proof -
  define s where "s = sqrt (b * b - 4 * a * c)"
  have ss: "s * s = b * b - 4 * a * c" using assms(2) by (simp add: s_def)
  have "a * ((- b - s) / (2 * a)) * ((- b - s) / (2 * a)) + b * ((- b - s) / (2 * a)) + c
        = ((- b - s) * (- b - s) + 2 * b * (- b - s) + 4 * a * c) / (4 * a)"
    using assms(1) by (simp add: field_simps)
  also have "(- b - s) * (- b - s) + 2 * b * (- b - s) + 4 * a * c = s * s - (b * b - 4 * a * c)"
    by (simp add: algebra_simps)
  finally show "a * ((- b - sqrt (b * b - 4 * a * c)) / (2 * a)) * ((- b - sqrt (b * b - 4 * a * c)) / (2 * a))
         + b * ((- b - sqrt (b * b - 4 * a * c)) / (2 * a)) + c = 0"
    using ss by (simp add: s_def)
  have "a * ((- b + s) / (2 * a)) * ((- b + s) / (2 * a)) + b * ((- b + s) / (2 * a)) + c
        = ((- b + s) * (- b + s) + 2 * b * (- b + s) + 4 * a * c) / (4 * a)"
    using assms(1) by (simp add: field_simps)
  also have "(- b + s) * (- b + s) + 2 * b * (- b + s) + 4 * a * c = s * s - (b * b - 4 * a * c)"
    by (simp add: algebra_simps)
  finally show "a * ((- b + sqrt (b * b - 4 * a * c)) / (2 * a)) * ((- b + sqrt (b * b - 4 * a * c)) / (2 * a))
         + b * ((- b + sqrt (b * b - 4 * a * c)) / (2 * a)) + c = 0"
    using ss by (simp add: s_def)
qed

lemma solve_quadratic_error_iff:
  "(\<exists>e. solve_quadratic a b c = Inl e) \<longleftrightarrow> a = 0 \<and> b = 0 \<and> c = 0"
  by (auto simp: solve_quadratic_def Let_def)

lemma solve_quadratic_pair:
  assumes "\<not> (a = 0 \<and> b = 0)" "0 \<le> b * b - 4 * a * c"
  shows "\<exists>t0 t1. solve_quadratic a b c = Inr (Some (t0, t1)) \<and> t0 \<le> t1
            \<and> a * t0 * t0 + b * t0 + c = 0 \<and> a * t1 * t1 + b * t1 + c = 0
            \<and> (b * b - 4 * a * c = 0 \<longrightarrow> t0 = t1)"
proof (cases "a = 0")
  case True
  with assms(1) have "b \<noteq> 0" by simp
  with True show ?thesis by (simp add: solve_quadratic_def)
next
  case False
  let ?r1 = "(- b - sqrt (b * b - 4 * a * c)) / (2 * a)"
  let ?r2 = "(- b + sqrt (b * b - 4 * a * c)) / (2 * a)"
  have r: "a * ?r1 * ?r1 + b * ?r1 + c = 0" "a * ?r2 * ?r2 + b * ?r2 + c = 0"
    using quadratic_formula_roots [OF False assms(2)] by simp_all
  have sq: "solve_quadratic a b c = Inr (Some (min ?r1 ?r2, max ?r1 ?r2))"
    using False assms(2) by (simp add: solve_quadratic_def Let_def)
  have m: "a * min ?r1 ?r2 * min ?r1 ?r2 + b * min ?r1 ?r2 + c = 0"
          "a * max ?r1 ?r2 * max ?r1 ?r2 + b * max ?r1 ?r2 + c = 0"
    using r by (simp_all add: min_def max_def)
  have e: "b * b - 4 * a * c = 0 \<longrightarrow> min ?r1 ?r2 = max ?r1 ?r2" by simp
  show ?thesis using sq m e by auto
qed

text \<open>
  C2, as the model of section 4.3 has it. \<open>solve_quadratic\<close> raises if and only if
  \<open>a = b = c = 0\<close>. For \<open>a = b = 0\<close> and \<open>c \<noteq> 0\<close> it returns no result: the
  discriminant is 0 there, and no root exists. In every other case it returns no result
  when the discriminant is negative, and when it is not, a pair \<open>t0 \<le> t1\<close> of roots of
  \<open>a t^2 + b t + c = 0\<close>, equal when the discriminant is zero; for \<open>a \<noteq> 0\<close> the pair is
  \<open>(-b - sqrt D) / (2a)\<close> and \<open>(-b + sqrt D) / (2a)\<close> in ascending order.
\<close>

theorem solve_quadratic_cases:
  "((\<exists>e. solve_quadratic a b c = Inl e) \<longleftrightarrow> a = 0 \<and> b = 0 \<and> c = 0)
   \<and> (a = 0 \<and> b = 0 \<and> c \<noteq> 0 \<longrightarrow> solve_quadratic a b c = Inr None)
   \<and> (\<not> (a = 0 \<and> b = 0) \<and> b * b - 4 * a * c < 0 \<longrightarrow> solve_quadratic a b c = Inr None)
   \<and> (\<not> (a = 0 \<and> b = 0) \<and> 0 \<le> b * b - 4 * a * c \<longrightarrow>
        (\<exists>t0 t1. solve_quadratic a b c = Inr (Some (t0, t1)) \<and> t0 \<le> t1
            \<and> a * t0 * t0 + b * t0 + c = 0 \<and> a * t1 * t1 + b * t1 + c = 0
            \<and> (b * b - 4 * a * c = 0 \<longrightarrow> t0 = t1)))
   \<and> (a \<noteq> 0 \<and> 0 \<le> b * b - 4 * a * c \<longrightarrow>
        solve_quadratic a b c =
          Inr (Some (min ((- b - sqrt (b * b - 4 * a * c)) / (2 * a))
                         ((- b + sqrt (b * b - 4 * a * c)) / (2 * a)),
                     max ((- b - sqrt (b * b - 4 * a * c)) / (2 * a))
                         ((- b + sqrt (b * b - 4 * a * c)) / (2 * a)))))"
proof -
  have 1: "(\<exists>e. solve_quadratic a b c = Inl e) \<longleftrightarrow> a = 0 \<and> b = 0 \<and> c = 0"
    by (rule solve_quadratic_error_iff)
  have 2: "a = 0 \<and> b = 0 \<and> c \<noteq> 0 \<longrightarrow> solve_quadratic a b c = Inr None"
    by (simp add: solve_quadratic_def)
  have 3: "\<not> (a = 0 \<and> b = 0) \<and> b * b - 4 * a * c < 0 \<longrightarrow> solve_quadratic a b c = Inr None"
    by (auto simp: solve_quadratic_def Let_def)
  have 4: "\<not> (a = 0 \<and> b = 0) \<and> 0 \<le> b * b - 4 * a * c \<longrightarrow>
        (\<exists>t0 t1. solve_quadratic a b c = Inr (Some (t0, t1)) \<and> t0 \<le> t1
            \<and> a * t0 * t0 + b * t0 + c = 0 \<and> a * t1 * t1 + b * t1 + c = 0
            \<and> (b * b - 4 * a * c = 0 \<longrightarrow> t0 = t1))"
    using solve_quadratic_pair [of a b c] by blast
  have 5: "a \<noteq> 0 \<and> 0 \<le> b * b - 4 * a * c \<longrightarrow>
        solve_quadratic a b c =
          Inr (Some (min ((- b - sqrt (b * b - 4 * a * c)) / (2 * a))
                         ((- b + sqrt (b * b - 4 * a * c)) / (2 * a)),
                     max ((- b - sqrt (b * b - 4 * a * c)) / (2 * a))
                         ((- b + sqrt (b * b - 4 * a * c)) / (2 * a))))"
    by (simp add: solve_quadratic_def Let_def)
  from 1 2 3 4 5 show ?thesis by blast
qed

theorem solve_quadratic_cases_witness:
  "\<not> ((1::real) = 0 \<and> (0::real) = 0) \<and> (0::real) \<le> 0 * 0 - 4 * 1 * (- 4)
   \<and> solve_quadratic 1 0 (- 4) = Inr (Some (- 2, 2))
   \<and> (0::real) * 0 - 4 * 1 * 4 < 0 \<and> solve_quadratic 1 0 4 = Inr None
   \<and> (1::real) \<noteq> 0 \<and> solve_quadratic 0 0 1 = Inr None
   \<and> solve_quadratic 0 0 0 = Inl RuntimeError"
  using solve_quadratic_cases [of 1 0 "- 4"] solve_quadratic_cases [of 1 0 4]
        solve_quadratic_cases [of 0 0 1] solve_quadratic_cases [of 0 0 0]
  by (simp add: solve_quadratic_def Let_def)

text \<open>
  The claim as stated promises a sorted pair of roots whenever the discriminant is not
  negative and the coefficients are not all zero. At \<open>a = b = 0\<close>, \<open>c = 1\<close> the
  discriminant is 0, the equation \<open>1 = 0\<close> has no root, and the result is none.
\<close>

theorem solve_quadratic_no_pair_without_root:
  "solve_quadratic 0 0 1 = Inr None \<and> (0::real) \<le> 0 * 0 - 4 * 0 * 1
   \<and> \<not> ((0::real) = 0 \<and> (0::real) = 0 \<and> (1::real) = 0)"
  by (simp add: solve_quadratic_def)

section \<open>Sphere intersection\<close>


lemma solve_quadratic_monic:
  "solve_quadratic 1 b c =
     (if b * b - 4 * c < 0 then Inr None
      else Inr (Some ((- b - sqrt (b * b - 4 * c)) / 2, (- b + sqrt (b * b - 4 * c)) / 2)))"
proof -
  have "(- b - sqrt (b * b - 4 * c)) / 2 \<le> (- b + sqrt (b * b - 4 * c)) / 2"
    if "0 \<le> b * b - 4 * c"
    using that by simp
  then show ?thesis
    by (auto simp: solve_quadratic_def Let_def min_def max_def)
qed

lemma point_on_sphere:
  assumes unit: "length_vec dir = 1"
    and root: "t * t + 2 * dot dir (sub orig (center s)) * t
               + (dot (sub orig (center s)) (sub orig (center s)) - radius s * radius s) = 0"
  shows "dot (sub (add orig (mul dir t)) (center s)) (sub (add orig (mul dir t)) (center s))
         = radius s * radius s"
proof -
  have dd: "dot dir dir = 1" using unit length_vec_sq [of dir] by simp
  have "dot (sub (add orig (mul dir t)) (center s)) (sub (add orig (mul dir t)) (center s))
        = t * t * dot dir dir + 2 * dot dir (sub orig (center s)) * t
          + dot (sub orig (center s)) (sub orig (center s))"
    by (simp add: dot_def sub_def add_def mul_def algebra_simps)
  with dd root show ?thesis by simp
qed


lemma intersect_unfold:
  "intersect h s ray =
     (case solve_quadratic 1 (2 * dot (h (direction ray)) (sub (h (origin ray)) (center s)))
             (dot (sub (h (origin ray)) (center s)) (sub (h (origin ray)) (center s))
              - radius s * radius s) of
        Inl e \<Rightarrow> Inl e
      | Inr None \<Rightarrow> Inr None
      | Inr (Some (t0, t1)) \<Rightarrow>
          (if t0 < 0 \<and> t1 < 0 then Inr None
           else if t0 < 0 \<and> 0 < t1 then intersection_at s (h (origin ray)) (h (direction ray)) t1
           else intersection_at s (h (origin ray)) (h (direction ray)) t0))"
  by (simp add: intersect_def Let_def)

text \<open>
  C1, against the model of section 4.4. \<open>intersect\<close> solves the quadratic
  \<open>t^2 + b t + c = 0\<close> with \<open>b = 2 dot(D, O - C)\<close> and \<open>c = |O - C|^2 - r^2\<close> for the
  ray parameter. With a negative discriminant there is no intersection. Otherwise the
  roots are \<open>t0 = (-b - sqrt D)/2 \<le> t1 = (-b + sqrt D)/2\<close>, and: if both are negative
  the result is none; if \<open>t0\<close> is negative and \<open>t1\<close> positive (the origin is inside the
  sphere) the intersection is reported at \<open>t1\<close>; otherwise it is reported at \<open>t0\<close>. For a
  unit direction the points at both roots lie on the sphere, and for a radius other than
  zero the report at \<open>t\<close> carries the distance \<open>t\<close>, the point \<open>O + t D\<close> and the normal
  there.
\<close>

theorem intersect_reports_root:
  "(let orig = h (origin ray); dir = h (direction ray); oc = sub orig (center s);
        b = 2 * dot dir oc; c = dot oc oc - radius s * radius s;
        disc = b * b - 4 * c;
        t0 = (- b - sqrt disc) / 2; t1 = (- b + sqrt disc) / 2
    in (disc < 0 \<longrightarrow> solve_quadratic 1 b c = Inr None \<and> intersect h s ray = Inr None)
     \<and> (0 \<le> disc \<longrightarrow>
          solve_quadratic 1 b c = Inr (Some (t0, t1)) \<and> t0 \<le> t1
          \<and> t0 * t0 + b * t0 + c = 0 \<and> t1 * t1 + b * t1 + c = 0
          \<and> (t0 < 0 \<and> t1 < 0 \<longrightarrow> intersect h s ray = Inr None)
          \<and> (t0 < 0 \<and> 0 < t1 \<longrightarrow> intersect h s ray = intersection_at s orig dir t1)
          \<and> (\<not> (t0 < 0 \<and> t1 < 0) \<and> \<not> (t0 < 0 \<and> 0 < t1) \<longrightarrow>
                intersect h s ray = intersection_at s orig dir t0)
          \<and> (length_vec dir = 1 \<longrightarrow>
                dot (sub (add orig (mul dir t0)) (center s)) (sub (add orig (mul dir t0)) (center s))
                  = radius s * radius s
                \<and> dot (sub (add orig (mul dir t1)) (center s)) (sub (add orig (mul dir t1)) (center s))
                  = radius s * radius s))
     \<and> (radius s \<noteq> 0 \<longrightarrow>
          (\<forall>t. \<exists>n. get_normal s (add orig (mul dir t)) = Inr n
                \<and> intersection_at s orig dir t
                    = Inr (Some \<lparr>distance = t, point = add orig (mul dir t), normal = n\<rparr>))))"
proof -
  define orig where "orig = h (origin ray)"
  define dir where "dir = h (direction ray)"
  define b where "b = 2 * dot dir (sub orig (center s))"
  define c where "c = dot (sub orig (center s)) (sub orig (center s)) - radius s * radius s"
  define disc where "disc = b * b - 4 * c"
  define t0 where "t0 = (- b - sqrt disc) / 2"
  define t1 where "t1 = (- b + sqrt disc) / 2"
  have sq: "solve_quadratic 1 b c = (if disc < 0 then Inr None else Inr (Some (t0, t1)))"
    unfolding disc_def t0_def t1_def by (rule solve_quadratic_monic)
  have isect: "intersect h s ray =
     (case solve_quadratic 1 b c of
        Inl e \<Rightarrow> Inl e
      | Inr None \<Rightarrow> Inr None
      | Inr (Some (t0, t1)) \<Rightarrow>
          (if t0 < 0 \<and> t1 < 0 then Inr None
           else if t0 < 0 \<and> 0 < t1 then intersection_at s orig dir t1
           else intersection_at s orig dir t0))"
    unfolding b_def c_def orig_def dir_def by (rule intersect_unfold)
  have neg: "disc < 0 \<longrightarrow> solve_quadratic 1 b c = Inr None \<and> intersect h s ray = Inr None"
    by (simp add: isect sq)
  have ord: "0 \<le> disc \<Longrightarrow> t0 \<le> t1"
    by (simp add: t0_def t1_def)
  have roots: "t0 * t0 + b * t0 + c = 0" "t1 * t1 + b * t1 + c = 0" if "0 \<le> disc"
  proof -
    have d: "0 \<le> b * b - 4 * 1 * c" using that by (simp add: disc_def)
    have one: "(1::real) \<noteq> 0" by simp
    show "t0 * t0 + b * t0 + c = 0"
      using quadratic_formula_roots(1) [OF one d] by (simp add: t0_def disc_def)
    show "t1 * t1 + b * t1 + c = 0"
      using quadratic_formula_roots(2) [OF one d] by (simp add: t1_def disc_def)
  qed
  have sphere: "dot (sub (add orig (mul dir t)) (center s)) (sub (add orig (mul dir t)) (center s))
                  = radius s * radius s"
    if "length_vec dir = 1" "t * t + b * t + c = 0" for t
    using that point_on_sphere [of dir t orig s] by (simp add: b_def c_def)
  have pos: "0 \<le> disc \<longrightarrow>
          solve_quadratic 1 b c = Inr (Some (t0, t1)) \<and> t0 \<le> t1
          \<and> t0 * t0 + b * t0 + c = 0 \<and> t1 * t1 + b * t1 + c = 0
          \<and> (t0 < 0 \<and> t1 < 0 \<longrightarrow> intersect h s ray = Inr None)
          \<and> (t0 < 0 \<and> 0 < t1 \<longrightarrow> intersect h s ray = intersection_at s orig dir t1)
          \<and> (\<not> (t0 < 0 \<and> t1 < 0) \<and> \<not> (t0 < 0 \<and> 0 < t1) \<longrightarrow>
                intersect h s ray = intersection_at s orig dir t0)
          \<and> (length_vec dir = 1 \<longrightarrow>
                dot (sub (add orig (mul dir t0)) (center s)) (sub (add orig (mul dir t0)) (center s))
                  = radius s * radius s
                \<and> dot (sub (add orig (mul dir t1)) (center s)) (sub (add orig (mul dir t1)) (center s))
                  = radius s * radius s)"
  proof
    assume d: "0 \<le> disc"
    then have s1: "solve_quadratic 1 b c = Inr (Some (t0, t1))" by (simp add: sq)
    have i: "intersect h s ray =
          (if t0 < 0 \<and> t1 < 0 then Inr None
           else if t0 < 0 \<and> 0 < t1 then intersection_at s orig dir t1
           else intersection_at s orig dir t0)"
      by (simp add: isect s1)
    show "solve_quadratic 1 b c = Inr (Some (t0, t1)) \<and> t0 \<le> t1
          \<and> t0 * t0 + b * t0 + c = 0 \<and> t1 * t1 + b * t1 + c = 0
          \<and> (t0 < 0 \<and> t1 < 0 \<longrightarrow> intersect h s ray = Inr None)
          \<and> (t0 < 0 \<and> 0 < t1 \<longrightarrow> intersect h s ray = intersection_at s orig dir t1)
          \<and> (\<not> (t0 < 0 \<and> t1 < 0) \<and> \<not> (t0 < 0 \<and> 0 < t1) \<longrightarrow>
                intersect h s ray = intersection_at s orig dir t0)
          \<and> (length_vec dir = 1 \<longrightarrow>
                dot (sub (add orig (mul dir t0)) (center s)) (sub (add orig (mul dir t0)) (center s))
                  = radius s * radius s
                \<and> dot (sub (add orig (mul dir t1)) (center s)) (sub (add orig (mul dir t1)) (center s))
                  = radius s * radius s)"
      using s1 ord [OF d] roots [OF d] sphere i by auto
  qed
  have at: "radius s \<noteq> 0 \<longrightarrow>
          (\<forall>t. \<exists>n. get_normal s (add orig (mul dir t)) = Inr n
                \<and> intersection_at s orig dir t
                    = Inr (Some \<lparr>distance = t, point = add orig (mul dir t), normal = n\<rparr>))"
    by (simp add: intersection_at_def get_normal_def truediv_def Let_def)
  show ?thesis
    unfolding Let_def
    using neg pos at
    unfolding orig_def dir_def b_def c_def disc_def t0_def t1_def
    by blast
qed


theorem intersect_reports_root_witness:
  "length_vec ((\<lambda>a. if a = 0 then \<lparr>vx = 0, vy = 0, vz = 5\<rparr> else \<lparr>vx = 0, vy = 0, vz = - 1\<rparr>) (1::nat)) = 1
   \<and> intersect (\<lambda>a. if a = 0 then \<lparr>vx = 0, vy = 0, vz = 5\<rparr> else \<lparr>vx = 0, vy = 0, vz = - 1\<rparr>)
        \<lparr>center = \<lparr>vx = 0, vy = 0, vz = 0\<rparr>, radius = 1\<rparr> \<lparr>origin = 0, direction = 1\<rparr>
      = Inr (Some \<lparr>distance = 4, point = \<lparr>vx = 0, vy = 0, vz = 1\<rparr>,
                    normal = \<lparr>vx = 0, vy = 0, vz = 1\<rparr>\<rparr>)
   \<and> intersect (\<lambda>a. if a = 0 then \<lparr>vx = 0, vy = 0, vz = 0\<rparr> else \<lparr>vx = 0, vy = 0, vz = 1\<rparr>)
        \<lparr>center = \<lparr>vx = 0, vy = 0, vz = 0\<rparr>, radius = 1\<rparr> \<lparr>origin = 0, direction = 1\<rparr>
      = Inr (Some \<lparr>distance = 1, point = \<lparr>vx = 0, vy = 0, vz = 1\<rparr>,
                    normal = \<lparr>vx = 0, vy = 0, vz = 1\<rparr>\<rparr>)
   \<and> intersect (\<lambda>a. if a = 0 then \<lparr>vx = 0, vy = 0, vz = 5\<rparr> else \<lparr>vx = 0, vy = 0, vz = 1\<rparr>)
        \<lparr>center = \<lparr>vx = 0, vy = 0, vz = 0\<rparr>, radius = 1\<rparr> \<lparr>origin = 0, direction = 1\<rparr>
      = Inr None"
  using intersect_reports_root
          [of "\<lambda>a. if a = 0 then \<lparr>vx = 0, vy = 0, vz = 5\<rparr> else \<lparr>vx = 0, vy = 0, vz = - 1\<rparr>"
              "\<lparr>origin = 0, direction = 1\<rparr>" "\<lparr>center = \<lparr>vx = 0, vy = 0, vz = 0\<rparr>, radius = 1\<rparr>"]
        intersect_reports_root
          [of "\<lambda>a. if a = 0 then \<lparr>vx = 0, vy = 0, vz = 0\<rparr> else \<lparr>vx = 0, vy = 0, vz = 1\<rparr>"
              "\<lparr>origin = 0, direction = 1\<rparr>" "\<lparr>center = \<lparr>vx = 0, vy = 0, vz = 0\<rparr>, radius = 1\<rparr>"]
        intersect_reports_root
          [of "\<lambda>a. if a = 0 then \<lparr>vx = 0, vy = 0, vz = 5\<rparr> else \<lparr>vx = 0, vy = 0, vz = 1\<rparr>"
              "\<lparr>origin = 0, direction = 1\<rparr>" "\<lparr>center = \<lparr>vx = 0, vy = 0, vz = 0\<rparr>, radius = 1\<rparr>"]
  by (simp add: Let_def intersection_at_def get_normal_def truediv_def add_def mul_def sub_def
      dot_def length_vec_def)

section \<open>Refraction\<close>


lemma refract_vector_nonzero:
  assumes d: "dot d d = 1" and e: "0 < e" and cI: "cI = - dot n d" and c0: "0 \<le> cI"
    and s: "e * e * (1 - cI * cI) \<le> 1"
  shows "length_vec (add (mul d e) (mul n (e * cI - sqrt (1 - e * e * (1 - cI * cI))))) \<noteq> 0"
proof
  define cT where "cT = sqrt (1 - e * e * (1 - cI * cI))"
  define k where "k = e * cI - cT"
  define X where "X = add (mul d e) (mul n k)"
  assume "length_vec (add (mul d e) (mul n (e * cI - sqrt (1 - e * e * (1 - cI * cI))))) = 0"
  then have "length_vec X = 0" by (simp add: X_def k_def cT_def)
  then have X0: "X = \<lparr>vx = 0, vy = 0, vz = 0\<rparr>" by (simp add: length_vec_zero_iff)
  have "dot X d = e * dot d d + k * dot n d"
    by (simp add: X_def dot_def add_def mul_def algebra_simps)
  moreover have "dot X d = 0" by (simp add: X0 dot_def)
  ultimately have "e - k * cI = 0" using d cI by simp
  then have eq: "e * (1 - cI * cI) + cT * cI = 0"
    by (simp add: k_def algebra_simps)
  have cT0: "0 \<le> cT" using s by (simp add: cT_def)
  have cT2: "cT * cT = 1 - e * e * (1 - cI * cI)" using s by (simp add: cT_def)
  show False
  proof (cases "cI \<le> 1")
    case True
    then have "cI * cI \<le> 1" using c0 by (simp add: mult_le_one)
    then have a: "0 \<le> e * (1 - cI * cI)" using e by simp
    have b: "0 \<le> cT * cI" using cT0 c0 by simp
    from a b eq have z: "e * (1 - cI * cI) = 0" "cT * cI = 0" by linarith+
    from z(1) e have one: "cI * cI = 1" by simp
    with cT2 have "cT * cT = 1" by simp
    then have "cT \<noteq> 0" by auto
    with z(2) have "cI = 0" by simp
    with one show False by simp
  next
    case False
    then have c1: "1 < cI" by simp
    define u where "u = cI * cI - 1"
    have "1 * 1 < cI * cI" using c1 by (intro mult_strict_mono) simp_all
    then have u0: "0 < u" by (simp add: u_def)
    have m: "cT * cI = e * u" using eq by (simp add: u_def algebra_simps)
    have cTu: "cT * cT = 1 + e * e * u" using cT2 by (simp add: u_def algebra_simps)
    have cIu: "cI * cI = u + 1" by (simp add: u_def)
    have "(cT * cI) * (cT * cI) = (cT * cT) * (cI * cI)" by (simp add: algebra_simps)
    also have "\<dots> = (1 + e * e * u) * (u + 1)" by (simp only: cTu cIu)
    finally have "(e * u) * (e * u) = (1 + e * e * u) * (u + 1)" using m by simp
    then have "u + 1 + e * e * u = 0" by (simp add: algebra_simps)
    moreover have "0 < e * e * u" using e u0 by simp
    ultimately show False using u0 by linarith
  qed
qed


lemma refract_unfold:
  assumes "refract_flip d n eta = Inr (n', eta')"
  shows "refract d n eta =
     (if 1 < eta' * eta' * (1 - (- dot n' d) * (- dot n' d)) then Inr None
      else (case normalize_vec
                   (add (mul d eta')
                      (mul n' (eta' * (- dot n' d)
                               - sqrt (1 - eta' * eta' * (1 - (- dot n' d) * (- dot n' d)))))) of
              Inl e \<Rightarrow> Inl e
            | Inr v \<Rightarrow> Inr (Some v)))"
  using assms by (simp add: refract_def Let_def)

text \<open>
  C3, against the model of section 4.2. For a normalized incoming direction \<open>d\<close>, any
  normal \<open>n\<close> and an index ratio \<open>eta\<close> (a quotient of two refraction indices, so
  positive), let \<open>n'\<close> and \<open>eta'\<close> be the normal and the ratio after the flip
  (\<open>-n\<close> and \<open>1/eta\<close> when \<open>-dot(n,d) < 0\<close>) and \<open>cosI = -dot(n',d)\<close>, which is not
  negative. \<open>refract\<close> returns no direction if and only if
  \<open>sin2T = eta'^2 (1 - cosI^2) > 1\<close>; otherwise it returns the normalized vector
  \<open>eta' d + (eta' cosI - cosT) n'\<close> with \<open>cosT = sqrt(1 - sin2T)\<close>: that vector is never
  zero, so the normalization succeeds, and the result has unit length.
\<close>

theorem refract_total_internal_reflection:
  assumes "length_vec d = 1" and "0 < eta"
  shows "\<exists>n' eta'. refract_flip d n eta = Inr (n', eta')
          \<and> n' = (if - dot n d < 0 then neg n else n)
          \<and> eta' = (if - dot n d < 0 then 1 / eta else eta)
          \<and> (let cosI = - dot n' d; sin2T = eta' * eta' * (1 - cosI * cosI)
              in 0 \<le> cosI
               \<and> (refract d n eta = Inr None \<longleftrightarrow> 1 < sin2T)
               \<and> (\<not> 1 < sin2T \<longrightarrow>
                    (\<exists>v. refract d n eta = Inr (Some v)
                        \<and> normalize_vec (add (mul d eta')
                                            (mul n' (eta' * cosI - sqrt (1 - sin2T)))) = Inr v
                        \<and> length_vec v = 1)))"
proof -
  define n' where "n' = (if - dot n d < 0 then neg n else n)"
  define eta' where "eta' = (if - dot n d < 0 then 1 / eta else eta)"
  define cosI where "cosI = - dot n' d"
  define sin2T where "sin2T = eta' * eta' * (1 - cosI * cosI)"
  define X where "X = add (mul d eta') (mul n' (eta' * cosI - sqrt (1 - sin2T)))"
  have flip: "refract_flip d n eta = Inr (n', eta')"
    using assms(2) by (simp add: refract_flip_def n'_def eta'_def)
  have pos: "0 < eta'" using assms(2) by (simp add: eta'_def)
  have c0: "0 \<le> cosI" by (simp add: cosI_def n'_def neg_def dot_def)
  have dd: "dot d d = 1" using assms(1) length_vec_sq [of d] by simp
  have r: "refract d n eta =
     (if 1 < sin2T then Inr None
      else (case normalize_vec X of Inl e \<Rightarrow> Inl e | Inr v \<Rightarrow> Inr (Some v)))"
    unfolding sin2T_def X_def cosI_def by (rule refract_unfold [OF flip])
  have some: "\<exists>v. refract d n eta = Inr (Some v) \<and> normalize_vec X = Inr v \<and> length_vec v = 1"
    if "\<not> 1 < sin2T"
  proof -
    from that have le: "eta' * eta' * (1 - cosI * cosI) \<le> 1" by (simp add: sin2T_def)
    have "length_vec X \<noteq> 0"
      unfolding X_def sin2T_def
      by (rule refract_vector_nonzero [OF dd pos cosI_def c0 le])
    then obtain v where "normalize_vec X = Inr v" "length_vec v = 1"
      using normalize_vec_unit by blast
    with that show ?thesis by (simp add: r)
  qed
  have none: "refract d n eta = Inr None \<longleftrightarrow> 1 < sin2T"
  proof (cases "1 < sin2T")
    case True
    then show ?thesis by (simp add: r)
  next
    case False
    with some obtain v where "refract d n eta = Inr (Some v)" by blast
    with False show ?thesis by simp
  qed
  have "0 \<le> cosI
        \<and> (refract d n eta = Inr None \<longleftrightarrow> 1 < sin2T)
        \<and> (\<not> 1 < sin2T \<longrightarrow>
             (\<exists>v. refract d n eta = Inr (Some v) \<and> normalize_vec X = Inr v \<and> length_vec v = 1))"
    using c0 none some by blast
  then show ?thesis
    using flip
    unfolding Let_def X_def sin2T_def cosI_def
    by (intro exI [of _ n'] exI [of _ eta']) (simp add: n'_def eta'_def)
qed

theorem refract_total_internal_reflection_witness:
  "length_vec \<lparr>vx = 0, vy = 0, vz = - 1\<rparr> = 1 \<and> (0::real) < 1
   \<and> refract \<lparr>vx = 0, vy = 0, vz = - 1\<rparr> \<lparr>vx = 0, vy = 0, vz = 1\<rparr> 1
       = Inr (Some \<lparr>vx = 0, vy = 0, vz = - 1\<rparr>)
   \<and> length_vec \<lparr>vx = 1, vy = 0, vz = 0\<rparr> = 1 \<and> (0::real) < 2
   \<and> refract \<lparr>vx = 1, vy = 0, vz = 0\<rparr> \<lparr>vx = 0, vy = 0, vz = 1\<rparr> 2 = Inr None"
  using refract_total_internal_reflection
          [of "\<lparr>vx = 0, vy = 0, vz = - 1\<rparr>" 1 "\<lparr>vx = 0, vy = 0, vz = 1\<rparr>"]
        refract_total_internal_reflection
          [of "\<lparr>vx = 1, vy = 0, vz = 0\<rparr>" 2 "\<lparr>vx = 0, vy = 0, vz = 1\<rparr>"]
  by (simp add: refract_def refract_flip_def Let_def normalize_vec_def truediv_def length_vec_def
      dot_def add_def mul_def neg_def)

section \<open>Postprocessing\<close>


lemma max_channel_ge: "vx p \<le> max_channel p" "vy p \<le> max_channel p" "vz p \<le> max_channel p"
  by (simp_all add: max_channel_def)

lemma tone_map_pixel_unit:
  assumes "nonneg_channels bg" and "is_miss eps p \<or> nonneg_channels p"
  shows "unit_channels (tone_map_pixel bg eps p)"
proof -
  define q where "q = (if is_miss eps p then bg else p)"
  have q: "nonneg_channels q" using assms by (auto simp: q_def)
  have t: "tone_map_pixel bg eps p =
     (if max_channel q > 1 then \<lparr>vx = vx q / max_channel q, vy = vy q / max_channel q,
                                   vz = vz q / max_channel q\<rparr> else q)"
    by (simp add: tone_map_pixel_def q_def Let_def)
  show ?thesis
  proof (cases "max_channel q > 1")
    case True
    then have m: "0 < max_channel q" by simp
    show ?thesis
      using q True m max_channel_ge [of q]
      by (simp add: t unit_channels_def nonneg_channels_def)
  next
    case False
    then show ?thesis
      using q max_channel_ge [of q]
      by (simp add: t unit_channels_def nonneg_channels_def)
  qed
qed

lemma gamma_pixel_unit:
  assumes "0 \<le> e" and "unit_channels p"
  shows "unit_channels (gamma_pixel e eps p)"
  using assms by (simp add: gamma_pixel_def unit_channels_def powr_le1)

lemma postprocess_unit:
  assumes "0 < gamma" and "nonneg_channels bg"
    and "\<forall>row\<in>set px. \<forall>p\<in>set row. is_miss eps p \<or> nonneg_channels p"
  shows "\<exists>out. postprocess px bg gamma eps = Inr out \<and> (\<forall>row\<in>set out. \<forall>p\<in>set row. unit_channels p)"
proof -
  have pp: "postprocess px bg gamma eps
            = Inr (map (map (gamma_pixel (1 / gamma) eps)) (map (map (tone_map_pixel bg eps)) px))"
    using assms(1) by (simp add: postprocess_def gamma_correction_def tone_mapping_def)
  have "unit_channels (gamma_pixel (1 / gamma) eps (tone_map_pixel bg eps p))"
    if "row \<in> set px" "p \<in> set row" for row p
  proof -
    from that assms(3) have "is_miss eps p \<or> nonneg_channels p" by blast
    then have "unit_channels (tone_map_pixel bg eps p)"
      using assms(2) by (rule tone_map_pixel_unit [rotated])
    then show ?thesis using assms(1) by (intro gamma_pixel_unit) simp_all
  qed
  then show ?thesis by (auto simp: pp)
qed

lemma tone_map_pixel_miss:
  assumes "binary_channels bg" and "is_miss eps p"
  shows "tone_map_pixel bg eps p = bg"
  using assms by (auto simp: tone_map_pixel_def Let_def binary_channels_def max_channel_def)

lemma tone_map_pixel_background:
  assumes "binary_channels bg"
  shows "tone_map_pixel bg eps bg = bg"
  using assms by (auto simp: tone_map_pixel_def Let_def binary_channels_def max_channel_def)

lemma gamma_pixel_binary:
  assumes "binary_channels bg"
  shows "gamma_pixel e eps bg = bg"
  using assms by (cases bg) (auto simp: gamma_pixel_def binary_channels_def)

lemma postprocess_all_background:
  assumes "gamma \<noteq> 0" and "binary_channels bg"
    and "\<forall>row\<in>set px. \<forall>p\<in>set row. is_miss eps p"
  shows "postprocess px bg gamma eps = Inr (map (map (\<lambda>p. bg)) px)"
proof -
  have "map (map (gamma_pixel (1 / gamma) eps)) (map (map (tone_map_pixel bg eps)) px)
        = map (map (\<lambda>p. bg)) px"
    using assms(2,3) by (auto simp: tone_map_pixel_miss gamma_pixel_binary)
  then show ?thesis
    using assms(1) by (simp add: postprocess_def gamma_correction_def tone_mapping_def)
qed

lemma postprocess_background_fixed:
  assumes "gamma \<noteq> 0" and "binary_channels bg"
  shows "postprocess (map (map (\<lambda>p. bg)) px) bg gamma eps = Inr (map (map (\<lambda>p. bg)) px)"
  using assms
  by (simp add: postprocess_def gamma_correction_def tone_mapping_def comp_def
      tone_map_pixel_background gamma_pixel_binary)


text \<open>
  C8, against the model of section 4.8. (a) With a background colour whose channels are
  each 0 or 1 (the default black among them) and a \<open>gamma\<close> other than zero, a buffer of
  miss markers is postprocessed into a buffer that postprocessing leaves as it is. (b)
  With a positive \<open>gamma\<close>, a background colour without negative channel, and an input
  buffer whose pixels are miss markers or have no negative channel, every channel of the
  postprocessed buffer lies in \<open>[0, 1]\<close>.
\<close>

theorem postprocess_idempotent_and_bounded:
  "(gamma \<noteq> 0 \<and> binary_channels bg \<and> (\<forall>row\<in>set px. \<forall>p\<in>set row. is_miss eps p) \<longrightarrow>
      (\<exists>out. postprocess px bg gamma eps = Inr out \<and> postprocess out bg gamma eps = Inr out))
   \<and> (0 < gamma \<and> nonneg_channels bg
        \<and> (\<forall>row\<in>set px. \<forall>p\<in>set row. is_miss eps p \<or> nonneg_channels p) \<longrightarrow>
      (\<exists>out. postprocess px bg gamma eps = Inr out
             \<and> (\<forall>row\<in>set out. \<forall>p\<in>set row. unit_channels p)))"
proof (intro conjI impI)
  assume a: "gamma \<noteq> 0 \<and> binary_channels bg \<and> (\<forall>row\<in>set px. \<forall>p\<in>set row. is_miss eps p)"
  then have 1: "postprocess px bg gamma eps = Inr (map (map (\<lambda>p. bg)) px)"
    by (intro postprocess_all_background) simp_all
  from a have 2: "postprocess (map (map (\<lambda>p. bg)) px) bg gamma eps = Inr (map (map (\<lambda>p. bg)) px)"
    by (intro postprocess_background_fixed) simp_all
  from 1 2 show "\<exists>out. postprocess px bg gamma eps = Inr out \<and> postprocess out bg gamma eps = Inr out"
    by blast
next
  assume "0 < gamma \<and> nonneg_channels bg
        \<and> (\<forall>row\<in>set px. \<forall>p\<in>set row. is_miss eps p \<or> nonneg_channels p)"
  then show "\<exists>out. postprocess px bg gamma eps = Inr out
             \<and> (\<forall>row\<in>set out. \<forall>p\<in>set row. unit_channels p)"
    by (intro postprocess_unit) simp_all
qed

theorem postprocess_idempotent_and_bounded_witness:
  "(22 / 10 :: real) \<noteq> 0 \<and> 0 < (22 / 10 :: real)
   \<and> binary_channels \<lparr>vx = 0, vy = 0, vz = 0\<rparr> \<and> nonneg_channels \<lparr>vx = 0, vy = 0, vz = 0\<rparr>
   \<and> is_miss (1 / 100000000) NONE_VECTOR
   \<and> postprocess [[NONE_VECTOR, NONE_VECTOR]] \<lparr>vx = 0, vy = 0, vz = 0\<rparr> (22 / 10) (1 / 100000000)
       = Inr [[\<lparr>vx = 0, vy = 0, vz = 0\<rparr>, \<lparr>vx = 0, vy = 0, vz = 0\<rparr>]]
   \<and> postprocess [[\<lparr>vx = 0, vy = 0, vz = 0\<rparr>, \<lparr>vx = 0, vy = 0, vz = 0\<rparr>]]
        \<lparr>vx = 0, vy = 0, vz = 0\<rparr> (22 / 10) (1 / 100000000)
       = Inr [[\<lparr>vx = 0, vy = 0, vz = 0\<rparr>, \<lparr>vx = 0, vy = 0, vz = 0\<rparr>]]
   \<and> nonneg_channels \<lparr>vx = 2, vy = 1, vz = 0\<rparr>
   \<and> postprocess [[NONE_VECTOR, \<lparr>vx = 2, vy = 1, vz = 0\<rparr>]] \<lparr>vx = 0, vy = 0, vz = 0\<rparr> 1 (1 / 100000000)
       = Inr [[\<lparr>vx = 0, vy = 0, vz = 0\<rparr>, \<lparr>vx = 1, vy = 1 / 2, vz = 0\<rparr>]]
   \<and> unit_channels \<lparr>vx = 1, vy = 1 / 2, vz = 0\<rparr>"
  using postprocess_idempotent_and_bounded
          [of "22 / 10" "\<lparr>vx = 0, vy = 0, vz = 0\<rparr>" "[[NONE_VECTOR, NONE_VECTOR]]" "1 / 100000000"]
        postprocess_idempotent_and_bounded
          [of 1 "\<lparr>vx = 0, vy = 0, vz = 0\<rparr>" "[[NONE_VECTOR, \<lparr>vx = 2, vy = 1, vz = 0\<rparr>]]"
              "1 / 100000000"]
  by (simp add: postprocess_def gamma_correction_def tone_mapping_def tone_map_pixel_def
      gamma_pixel_def is_miss_def NONE_VECTOR_def max_channel_def binary_channels_def
      nonneg_channels_def unit_channels_def Let_def)

text \<open>
  The claim as stated fails in both halves. With the grey background \<open>(0.5, 0.5, 0.5)\<close>
  a miss pixel becomes \<open>0.5^(1/2.2)\<close> in every channel, and the second pass raises it to
  the power \<open>1/2.2\<close> again, which changes it. And a pixel \<open>(-1, -1, -1)\<close> is neither a
  miss marker nor brighter than \<open>eps\<close>, so it passes through both steps unchanged.
\<close>

lemma half_powr_bounds:
  "1 / 2 \<le> (1 / 2 :: real) powr (5 / 11)" "(1 / 2 :: real) powr (5 / 11) \<le> 1"
  "((1 / 2 :: real) powr (5 / 11)) powr (5 / 11) \<noteq> (1 / 2) powr (5 / 11)"
proof -
  have "(1 / 2 :: real) powr 1 \<le> (1 / 2) powr (5 / 11)"
    by (rule powr_mono') simp_all
  then show "1 / 2 \<le> (1 / 2 :: real) powr (5 / 11)" by simp
  show "(1 / 2 :: real) powr (5 / 11) \<le> 1" by (rule powr_le1) simp_all
  have "(1 / 2 :: real) powr (5 / 11 * (5 / 11)) \<noteq> (1 / 2) powr (5 / 11)"
    by (subst powr_inj) simp_all
  then show "((1 / 2 :: real) powr (5 / 11)) powr (5 / 11) \<noteq> (1 / 2) powr (5 / 11)"
    by (simp add: powr_powr)
qed

theorem postprocess_not_idempotent_nor_bounded:
  "postprocess [[NONE_VECTOR]] \<lparr>vx = 1 / 2, vy = 1 / 2, vz = 1 / 2\<rparr> (22 / 10) (1 / 100000000)
     = Inr [[\<lparr>vx = (1 / 2) powr (5 / 11), vy = (1 / 2) powr (5 / 11), vz = (1 / 2) powr (5 / 11)\<rparr>]]
   \<and> postprocess
        [[\<lparr>vx = (1 / 2) powr (5 / 11), vy = (1 / 2) powr (5 / 11), vz = (1 / 2) powr (5 / 11)\<rparr>]]
        \<lparr>vx = 1 / 2, vy = 1 / 2, vz = 1 / 2\<rparr> (22 / 10) (1 / 100000000)
     \<noteq> Inr [[\<lparr>vx = (1 / 2) powr (5 / 11), vy = (1 / 2) powr (5 / 11), vz = (1 / 2) powr (5 / 11)\<rparr>]]
   \<and> postprocess [[\<lparr>vx = - 1, vy = - 1, vz = - 1\<rparr>]] \<lparr>vx = 0, vy = 0, vz = 0\<rparr> (22 / 10)
        (1 / 100000000)
     = Inr [[\<lparr>vx = - 1, vy = - 1, vz = - 1\<rparr>]]
   \<and> \<not> unit_channels \<lparr>vx = - 1, vy = - 1, vz = - 1\<rparr>"
proof -
  define h :: real where "h = (1 / 2) powr (5 / 11)"
  have h: "1 / 2 \<le> h" "h \<le> 1" "h powr (5 / 11) \<noteq> h"
    using half_powr_bounds by (simp_all add: h_def)
  have 1: "postprocess [[NONE_VECTOR]] \<lparr>vx = 1 / 2, vy = 1 / 2, vz = 1 / 2\<rparr> (22 / 10) (1 / 100000000)
     = Inr [[\<lparr>vx = h, vy = h, vz = h\<rparr>]]"
    by (simp add: postprocess_def gamma_correction_def tone_mapping_def tone_map_pixel_def
        gamma_pixel_def is_miss_def NONE_VECTOR_def max_channel_def Let_def h_def)
  have miss: "\<not> is_miss (1 / 100000000) \<lparr>vx = h, vy = h, vz = h\<rparr>"
    using h(1) by (simp add: is_miss_def NONE_VECTOR_def)
  have 2: "postprocess [[\<lparr>vx = h, vy = h, vz = h\<rparr>]]
        \<lparr>vx = 1 / 2, vy = 1 / 2, vz = 1 / 2\<rparr> (22 / 10) (1 / 100000000)
     = Inr [[\<lparr>vx = h powr (5 / 11), vy = h powr (5 / 11), vz = h powr (5 / 11)\<rparr>]]"
    using h(1,2) miss
    by (simp add: postprocess_def gamma_correction_def tone_mapping_def tone_map_pixel_def
        gamma_pixel_def max_channel_def Let_def)
  have 3: "postprocess [[\<lparr>vx = - 1, vy = - 1, vz = - 1\<rparr>]] \<lparr>vx = 0, vy = 0, vz = 0\<rparr> (22 / 10)
        (1 / 100000000)
     = Inr [[\<lparr>vx = - 1, vy = - 1, vz = - 1\<rparr>]]"
    by (simp add: postprocess_def gamma_correction_def tone_mapping_def tone_map_pixel_def
        gamma_pixel_def is_miss_def NONE_VECTOR_def max_channel_def Let_def)
  have 4: "\<not> unit_channels \<lparr>vx = - 1, vy = - 1, vz = - 1\<rparr>"
    by (simp add: unit_channels_def)
  show ?thesis
    using 1 2 3 4 h(3) unfolding h_def by simp
qed

section \<open>The bytes of the image\<close>


lemma channel_byte_floor:
  assumes "0 \<le> c" and "c \<le> 1"
  shows "uint (channel_byte c) = min 255 \<lfloor>256 * c\<rfloor>"
proof -
  have clip: "np_clip 0 255 (256 * c) = min (256 * c) 255"
    by (simp add: np_clip_def)
  have nn: "0 \<le> min (256 * c) 255" using assms(1) by simp
  have fl: "\<lfloor>min (256 * c) 255\<rfloor> = min 255 \<lfloor>256 * c\<rfloor>"
    by (simp add: min_def floor_le_iff le_floor_iff)
  have lo: "0 \<le> min 255 \<lfloor>256 * c\<rfloor>" using assms(1) by simp
  have hi: "min 255 \<lfloor>256 * c\<rfloor> < 256" by simp
  have "uint (channel_byte c) = (min 255 \<lfloor>256 * c\<rfloor>) mod 256"
    using nn by (simp add: channel_byte_def np_uint8_def clip fl uint_word_of_int)
  also have "\<dots> = min 255 \<lfloor>256 * c\<rfloor>"
    using lo hi by (simp only: mod_pos_pos_trivial)
  finally show ?thesis .
qed

lemma unit_channels_bytes:
  assumes "unit_channels p"
  shows "\<forall>c\<in>set (to_array p). 0 \<le> c \<and> c \<le> 1 \<and> uint (channel_byte c) = min 255 \<lfloor>256 * c\<rfloor>"
  using assms by (simp add: to_array_def unit_channels_def channel_byte_floor)

text \<open>
  C6, as the sources have it. When the traced pixels are miss markers or have no negative
  channel and the background colour has no negative channel, \<open>render\<close> gets through
  \<open>postprocess\<close>, every channel \<open>c\<close> of the postprocessed buffer lies in \<open>[0, 1]\<close>, and
  the byte written for it is \<open>min(255, floor(256 c))\<close>: the conversion drops the
  fraction, it does not round.
\<close>

theorem render_image_truncates:
  assumes "\<forall>row\<in>set traced. \<forall>p\<in>set row. is_miss eps p \<or> nonneg_channels p"
    and "nonneg_channels (case background_color of None \<Rightarrow> \<lparr>vx = 0, vy = 0, vz = 0\<rparr> | Some c \<Rightarrow> c)"
  shows "\<exists>px. postprocess traced
                 (case background_color of None \<Rightarrow> \<lparr>vx = 0, vy = 0, vz = 0\<rparr> | Some c \<Rightarrow> c)
                 (22 / 10) eps = Inr px
             \<and> render_image traced background_color eps = Inr (map (map pixel_bytes) px)
             \<and> (\<forall>row\<in>set px. \<forall>p\<in>set row. \<forall>c\<in>set (to_array p).
                   0 \<le> c \<and> c \<le> 1 \<and> uint (channel_byte c) = min 255 \<lfloor>256 * c\<rfloor>)"
proof -
  define bg where "bg = (case background_color of None \<Rightarrow> \<lparr>vx = 0, vy = 0, vz = 0\<rparr> | Some c \<Rightarrow> c)"
  have g: "0 < (22 / 10 :: real)" by simp
  from assms(2) have b: "nonneg_channels bg" by (simp add: bg_def)
  obtain px where px: "postprocess traced bg (22 / 10) eps = Inr px"
      "\<forall>row\<in>set px. \<forall>p\<in>set row. unit_channels p"
    using postprocess_unit [OF g b assms(1)] by blast
  have r: "render_image traced background_color eps = Inr (map (map pixel_bytes) px)"
    using px(1) by (simp add: render_image_def bg_def Let_def)
  have "\<forall>row\<in>set px. \<forall>p\<in>set row. \<forall>c\<in>set (to_array p).
          0 \<le> c \<and> c \<le> 1 \<and> uint (channel_byte c) = min 255 \<lfloor>256 * c\<rfloor>"
    using px(2) unit_channels_bytes by blast
  with px(1) r show ?thesis unfolding bg_def by blast
qed

theorem render_image_truncates_witness:
  "is_miss (1 / 100000000) NONE_VECTOR \<and> nonneg_channels \<lparr>vx = 1, vy = 0, vz = 1\<rparr>
   \<and> nonneg_channels \<lparr>vx = 0, vy = 0, vz = 0\<rparr>
   \<and> render_image [[NONE_VECTOR, \<lparr>vx = 1, vy = 0, vz = 1\<rparr>]] None (1 / 100000000)
       = Inr [[[0, 0, 0], [255, 0, 255]]]"
proof -
  have m: "is_miss (1 / 100000000) NONE_VECTOR"
    by (simp add: is_miss_def)
  have n: "nonneg_channels \<lparr>vx = 1, vy = 0, vz = 1\<rparr>" "nonneg_channels \<lparr>vx = 0, vy = 0, vz = 0\<rparr>"
    by (simp_all add: nonneg_channels_def)
  have h1: "\<forall>row\<in>set [[NONE_VECTOR, \<lparr>vx = 1, vy = 0, vz = 1\<rparr>]]. \<forall>p\<in>set row.
              is_miss (1 / 100000000) p \<or> nonneg_channels p"
    using m n(1) by simp
  have h2: "nonneg_channels (case None of None \<Rightarrow> \<lparr>vx = 0, vy = 0, vz = 0\<rparr> | Some c \<Rightarrow> c)"
    using n(2) by simp
  obtain px where px:
    "postprocess [[NONE_VECTOR, \<lparr>vx = 1, vy = 0, vz = 1\<rparr>]]
       (case None of None \<Rightarrow> \<lparr>vx = 0, vy = 0, vz = 0\<rparr> | Some c \<Rightarrow> c) (22 / 10) (1 / 100000000)
     = Inr px"
    "render_image [[NONE_VECTOR, \<lparr>vx = 1, vy = 0, vz = 1\<rparr>]] None (1 / 100000000)
     = Inr (map (map pixel_bytes) px)"
    using render_image_truncates [OF h1 h2] by blast
  have t1: "tone_map_pixel \<lparr>vx = 0, vy = 0, vz = 0\<rparr> (1 / 100000000) NONE_VECTOR
            = \<lparr>vx = 0, vy = 0, vz = 0\<rparr>"
    using m by (simp add: tone_map_pixel_def max_channel_def Let_def)
  have t2: "tone_map_pixel \<lparr>vx = 0, vy = 0, vz = 0\<rparr> (1 / 100000000) \<lparr>vx = 1, vy = 0, vz = 1\<rparr>
            = \<lparr>vx = 1, vy = 0, vz = 1\<rparr>"
    by (simp add: tone_map_pixel_def max_channel_def Let_def is_miss_def NONE_VECTOR_def)
  have g1: "gamma_pixel (5 / 11) (1 / 100000000) \<lparr>vx = 0, vy = 0, vz = 0\<rparr> = \<lparr>vx = 0, vy = 0, vz = 0\<rparr>"
    by (simp add: gamma_pixel_def max_channel_def)
  have g2: "gamma_pixel (5 / 11) (1 / 100000000) \<lparr>vx = 1, vy = 0, vz = 1\<rparr> = \<lparr>vx = 1, vy = 0, vz = 1\<rparr>"
    by (simp add: gamma_pixel_def max_channel_def)
  have pp: "postprocess [[NONE_VECTOR, \<lparr>vx = 1, vy = 0, vz = 1\<rparr>]] \<lparr>vx = 0, vy = 0, vz = 0\<rparr>
              (22 / 10) (1 / 100000000)
            = Inr [[\<lparr>vx = 0, vy = 0, vz = 0\<rparr>, \<lparr>vx = 1, vy = 0, vz = 1\<rparr>]]"
    by (simp add: postprocess_def gamma_correction_def tone_mapping_def t1 t2 g1 g2)
  from px(1) pp have e: "px = [[\<lparr>vx = 0, vy = 0, vz = 0\<rparr>, \<lparr>vx = 1, vy = 0, vz = 1\<rparr>]]"
    by simp
  have b: "channel_byte 0 = 0" "channel_byte 1 = 255"
    by (simp_all add: channel_byte_def np_clip_def np_uint8_def)
  have "render_image [[NONE_VECTOR, \<lparr>vx = 1, vy = 0, vz = 1\<rparr>]] None (1 / 100000000)
       = Inr [[[0, 0, 0], [255, 0, 255]]]"
    unfolding px(2) e by (simp add: pixel_bytes_def to_array_def b)
  with m n show ?thesis by simp
qed

text \<open>
  The byte is not \<open>clamp(0, 255, round(256 c))\<close>: a traced grey of \<open>(515/1024)^2.2\<close>
  is postprocessed to \<open>515/1024\<close>, where \<open>256 c = 128.75\<close> rounds to 129 and the byte
  written is 128.
\<close>

lemma grey_powr_bounds:
  "1 / 100000000 < (515 / 1024 :: real) powr (11 / 5)" "(515 / 1024 :: real) powr (11 / 5) \<le> 1"
  "((515 / 1024 :: real) powr (11 / 5)) powr (5 / 11) = 515 / 1024"
proof -
  have "(515 / 1024 :: real) powr 3 \<le> (515 / 1024) powr (11 / 5)"
    by (rule powr_mono') simp_all
  moreover have "(515 / 1024 :: real) powr 3 = (515 / 1024) ^ 3"
    by (rule powr_numeral) simp
  moreover have "1 / 100000000 < (515 / 1024 :: real) ^ 3" by (simp add: power3_eq_cube)
  ultimately show "1 / 100000000 < (515 / 1024 :: real) powr (11 / 5)" by linarith
  show "(515 / 1024 :: real) powr (11 / 5) \<le> 1" by (rule powr_le1) simp_all
  show "((515 / 1024 :: real) powr (11 / 5)) powr (5 / 11) = 515 / 1024"
    by (simp add: powr_powr)
qed

theorem render_image_does_not_round:
  "postprocess
     [[\<lparr>vx = (515 / 1024) powr (11 / 5), vy = (515 / 1024) powr (11 / 5),
        vz = (515 / 1024) powr (11 / 5)\<rparr>]]
     \<lparr>vx = 0, vy = 0, vz = 0\<rparr> (22 / 10) (1 / 100000000)
     = Inr [[\<lparr>vx = 515 / 1024, vy = 515 / 1024, vz = 515 / 1024\<rparr>]]
   \<and> render_image
     [[\<lparr>vx = (515 / 1024) powr (11 / 5), vy = (515 / 1024) powr (11 / 5),
        vz = (515 / 1024) powr (11 / 5)\<rparr>]]
     None (1 / 100000000)
     = Inr [[[128, 128, 128]]]
   \<and> max 0 (min 255 (round (256 * (515 / 1024 :: real)))) = 129"
proof -
  define c :: real where "c = (515 / 1024) powr (11 / 5)"
  have c: "1 / 100000000 < c" "c \<le> 1" "c powr (5 / 11) = 515 / 1024"
    using grey_powr_bounds by (simp_all add: c_def)
  have miss: "\<not> is_miss (1 / 100000000) \<lparr>vx = c, vy = c, vz = c\<rparr>"
    using c(1) by (simp add: is_miss_def NONE_VECTOR_def)
  have 1: "postprocess [[\<lparr>vx = c, vy = c, vz = c\<rparr>]] \<lparr>vx = 0, vy = 0, vz = 0\<rparr> (22 / 10)
             (1 / 100000000)
           = Inr [[\<lparr>vx = 515 / 1024, vy = 515 / 1024, vz = 515 / 1024\<rparr>]]"
    using c miss
    by (simp add: postprocess_def gamma_correction_def tone_mapping_def tone_map_pixel_def
        gamma_pixel_def max_channel_def Let_def)
  have b: "channel_byte (515 / 1024) = 128"
    by (simp add: channel_byte_def np_clip_def np_uint8_def)
  have 2: "render_image [[\<lparr>vx = c, vy = c, vz = c\<rparr>]] None (1 / 100000000) = Inr [[[128, 128, 128]]]"
    using 1 by (simp add: render_image_def pixel_bytes_def to_array_def b)
  have 3: "max 0 (min 255 (round (256 * (515 / 1024 :: real)))) = 129"
    by (simp add: round_def)
  show ?thesis using 1 2 3 unfolding c_def by simp
qed

end
